theory Spec2Isabelle
  imports Main
begin

section \<open>JavaScript values\<close>

text \<open>
  The request body is whatever the JSON body parser left in \<open>req.body\<close>; the handlers
  read properties of it and test them with \<open>!\<close>. Numbers are kept as integers: the
  handlers only observe whether a number is zero and pass the value on unchanged.
\<close>

datatype jsval =
    JUndefined
  | JNull
  | JBool bool
  | JNum int
  | JStr string
  | JArr "jsval list"
  | JObj "(string \<times> jsval) list"

text \<open>ToBoolean: what \<open>!x\<close>, \<open>x || y\<close>, \<open>x && y\<close> and \<open>if (x)\<close> look at.\<close>

fun truthy :: "jsval \<Rightarrow> bool" where
  "truthy JUndefined = False"
| "truthy JNull = False"
| "truthy (JBool b) = b"
| "truthy (JNum n) = (n \<noteq> 0)"
| "truthy (JStr s) = (s \<noteq> [])"
| "truthy (JArr xs) = True"
| "truthy (JObj kvs) = True"

text \<open>What a throw carries: the engine's own TypeError or a rejection of the provider's promise.\<close>

datatype exn = TypeError string | Rejection string

text \<open>
  Reading the property \<open>k\<close> of a value that is neither \<open>undefined\<close> nor \<open>null\<close>. Of the
  names the handlers read (\<open>email\<close>, \<open>password\<close>, \<open>tokenHash\<close>, \<open>type\<close>) none is
  defined on arrays, strings, numbers or booleans, so only an object can answer.
\<close>

fun property :: "jsval \<Rightarrow> string \<Rightarrow> jsval" where
  "property (JObj kvs) k = (case map_of kvs k of None \<Rightarrow> JUndefined | Some v \<Rightarrow> v)"
| "property v k = JUndefined"

text \<open>\<open>const { k } = v\<close>: destructuring \<open>undefined\<close> or \<open>null\<close> throws a TypeError.\<close>

fun destructure :: "jsval \<Rightarrow> string \<Rightarrow> exn + jsval" where
  "destructure JUndefined k = Inl (TypeError ''Cannot destructure property of undefined'')"
| "destructure JNull k = Inl (TypeError ''Cannot destructure property of null'')"
| "destructure v k = Inr (property v k)"


text \<open>\<open>String.prototype.includes\<close>: the pattern occurs somewhere in the string, case-sensitively.\<close>

fun starts_with :: "string \<Rightarrow> string \<Rightarrow> bool" where
  "starts_with s [] = True"
| "starts_with [] (c # cs) = False"
| "starts_with (x # xs) (c # cs) = (x = c \<and> starts_with xs cs)"

fun str_includes :: "string \<Rightarrow> string \<Rightarrow> bool" where
  "str_includes [] t = (t = [])"
| "str_includes (x # xs) t = (starts_with (x # xs) t \<or> str_includes xs t)"

section \<open>The provider's client\<close>

text \<open>
  The provider's client library is outside the repository. A handler receives it as a
  parameter, and its results carry the fields the handlers read: \<open>data.user\<close> with \<open>id\<close>,
  \<open>email\<close> and \<open>email_confirmed_at\<close>, \<open>data.session\<close> with \<open>access_token\<close>, and \<open>error\<close>
  with \<open>message\<close>.
\<close>

text \<open>
  Modelled from the spec: the confirmation timestamp, the provider-returned field that
  says whether the email has been verified. The provider's library declares it as an
  optional timestamp string; a timestamp is never the empty string, so it is kept as its
  first character and the rest, and its truthiness is derived from the string.
\<close>

datatype timestamp = Timestamp char string

fun timestamp_string :: "timestamp \<Rightarrow> string" where
  "timestamp_string (Timestamp c cs) = c # cs"

record user =
  user_id :: string
  user_email :: "string option"
  email_confirmed_at :: "timestamp option"

record session =
  access_token :: string

record auth_error =
  message :: string

text \<open>What the awaited promise resolves to: \<open>{ data: { user, session }, error }\<close>.\<close>

record auth_result =
  data_user :: "user option"
  data_session :: "session option"
  error :: "auth_error option"

text \<open>
  An awaited call resolves, rejects (the \<open>await\<close> throws) or never settles (the handler
  never continues and no response is sent).
\<close>

datatype provider_outcome = Resolves auth_result | Rejects exn | Pending

text \<open>The five operations of \<open>supabase.auth\<close> the handlers use, with their arguments.\<close>

datatype provider_call =
    SignUp jsval jsval string
  | SignInWithPassword jsval jsval
  | SignOut
  | VerifyOtp jsval jsval
  | Resend string jsval string

type_synonym provider = "provider_call \<Rightarrow> provider_outcome"

text \<open>The value of an optional string field and of an optional timestamp field.\<close>

fun opt_str :: "string option \<Rightarrow> jsval" where
  "opt_str None = JUndefined"
| "opt_str (Some s) = JStr s"

definition confirmed_at :: "user \<Rightarrow> jsval" where
  "confirmed_at u = opt_str (map_option timestamp_string (email_confirmed_at u))"

text \<open>\<open>data.session?.access_token\<close>\<close>

fun session_token :: "session option \<Rightarrow> jsval" where
  "session_token None = JUndefined"
| "session_token (Some s) = JStr (access_token s)"

section \<open>Requests, responses and what a handler does\<close>

record request =
  body :: jsval
  headers_origin :: "string option"

record http_response =
  status :: nat
  json :: jsval

text \<open>
  A run of a handler: the response sent (none when the awaited call never settles), the
  calls made on the provider's client in order, and the lines written by \<open>console.error\<close>.
\<close>

record run =
  response :: "http_response option"
  calls :: "provider_call list"
  logged :: "(string \<times> exn) list"

text \<open>What the body of a \<open>try\<close> block comes to: the calls made, and a throw or a response.\<close>

type_synonym attempt = "provider_call list \<times> (exn + http_response option)"

text \<open>\<open>res.status(n).json(obj)\<close>; \<open>res.json(obj)\<close> alone sends status 200.\<close>

definition send :: "nat \<Rightarrow> (string \<times> jsval) list \<Rightarrow> http_response" where
  "send n kvs = \<lparr>status = n, json = JObj kvs\<rparr>"

definition failure :: "nat \<Rightarrow> string \<Rightarrow> http_response" where
  "failure n msg = send n [(''success'', JBool False), (''message'', JStr msg)]"

definition internal_error :: http_response where
  "internal_error = failure 500 ''Internal server error''"

definition please_verify :: http_response where
  "please_verify = send 401
     [(''success'', JBool False),
      (''needsVerification'', JBool True),
      (''message'', JStr ''Please verify your email before logging in'')]"

text \<open>The \<open>catch\<close> block every handler ends with: log the error, answer 500.\<close>

fun contain :: "string \<Rightarrow> attempt \<Rightarrow> run" where
  "contain label (cs, Inl e) =
     \<lparr>response = Some internal_error, calls = cs, logged = [(label, e)]\<rparr>"
| "contain label (cs, Inr r) = \<lparr>response = r, calls = cs, logged = []\<rparr>"

text \<open>\<open>`${req.headers.origin || 'http://localhost:4200'}/verify-email`\<close>\<close>

definition redirectUrl :: "request \<Rightarrow> string" where
  "redirectUrl req =
     (case headers_origin req of
        None \<Rightarrow> ''http://localhost:4200''
      | Some origin \<Rightarrow> if truthy (JStr origin) then origin else ''http://localhost:4200'')
     @ ''/verify-email''"

text \<open>The \<open>user\<close> object of the success envelopes.\<close>

definition user_json :: "user \<Rightarrow> jsval" where
  "user_json u = JObj
     [(''id'', JStr (user_id u)),
      (''email'', opt_str (user_email u)),
      (''emailConfirmed'', JBool (truthy (confirmed_at u)))]"

section \<open>The handlers\<close>

subsection \<open>POST /api/signup\<close>

definition signup_reply :: "auth_result \<Rightarrow> exn + http_response option" where
  "signup_reply r =
     (case error r of
        Some err \<Rightarrow> Inr (Some (failure 400 (message err)))
      | None \<Rightarrow>
          let needsVerification =
                (case data_user r of
                   None \<Rightarrow> JNull
                 | Some u \<Rightarrow> JBool (\<not> truthy (confirmed_at u)))
          in (case data_user r of
               None \<Rightarrow> Inl (TypeError ''Cannot read properties of null (reading id)'')
             | Some u \<Rightarrow> Inr (Some (send 200
                 [(''success'', JBool True),
                  (''needsVerification'', needsVerification),
                  (''user'', user_json u),
                  (''token'', session_token (data_session r)),
                  (''message'', JStr (if truthy needsVerification
                      then ''Please check your email to verify your account''
                      else ''Account created successfully''))]))))"

definition signup_try :: "provider \<Rightarrow> request \<Rightarrow> attempt" where
  "signup_try supabase req =
     (case destructure (body req) ''email'' of
        Inl e \<Rightarrow> ([], Inl e)
      | Inr email \<Rightarrow>
     (case destructure (body req) ''password'' of
        Inl e \<Rightarrow> ([], Inl e)
      | Inr password \<Rightarrow>
          if \<not> truthy email \<or> \<not> truthy password
          then ([], Inr (Some (failure 400 ''Email and password are required'')))
          else (let c = SignUp email password (redirectUrl req)
               in (case supabase c of
                    Rejects e \<Rightarrow> ([c], Inl e)
                  | Pending \<Rightarrow> ([c], Inr None)
                  | Resolves r \<Rightarrow> ([c], signup_reply r)))))"

definition signup :: "provider \<Rightarrow> request \<Rightarrow> run" where
  "signup supabase req = contain ''Signup error:'' (signup_try supabase req)"

subsection \<open>POST /api/login\<close>

definition login_reply :: "auth_result \<Rightarrow> exn + http_response option" where
  "login_reply r =
     (case error r of
        Some err \<Rightarrow>
          if str_includes (message err) ''Email not confirmed''
          then Inr (Some please_verify)
          else Inr (Some (failure 401 (message err)))
      | None \<Rightarrow>
          (case data_user r of
             None \<Rightarrow> Inl (TypeError
               ''Cannot read properties of null (reading email_confirmed_at)'')
           | Some u \<Rightarrow>
               if \<not> truthy (confirmed_at u)
               then Inr (Some please_verify)
               else Inr (Some (send 200
                 [(''success'', JBool True),
                  (''user'', user_json u),
                  (''token'', session_token (data_session r))]))))"

definition login_try :: "provider \<Rightarrow> request \<Rightarrow> attempt" where
  "login_try supabase req =
     (case destructure (body req) ''email'' of
        Inl e \<Rightarrow> ([], Inl e)
      | Inr email \<Rightarrow>
     (case destructure (body req) ''password'' of
        Inl e \<Rightarrow> ([], Inl e)
      | Inr password \<Rightarrow>
          if \<not> truthy email \<or> \<not> truthy password
          then ([], Inr (Some (failure 400 ''Email and password are required'')))
          else (let c = SignInWithPassword email password
               in (case supabase c of
                    Rejects e \<Rightarrow> ([c], Inl e)
                  | Pending \<Rightarrow> ([c], Inr None)
                  | Resolves r \<Rightarrow> ([c], login_reply r)))))"

definition login :: "provider \<Rightarrow> request \<Rightarrow> run" where
  "login supabase req = contain ''Login error:'' (login_try supabase req)"

subsection \<open>POST /api/logout\<close>

definition logout_reply :: "auth_result \<Rightarrow> exn + http_response option" where
  "logout_reply r =
     (case error r of
        Some err \<Rightarrow> Inr (Some (failure 400 (message err)))
      | None \<Rightarrow> Inr (Some (send 200
          [(''success'', JBool True),
           (''message'', JStr ''Logged out successfully'')])))"

definition logout_try :: "provider \<Rightarrow> request \<Rightarrow> attempt" where
  "logout_try supabase req =
     (let c = SignOut
      in case supabase c of
           Rejects e \<Rightarrow> ([c], Inl e)
         | Pending \<Rightarrow> ([c], Inr None)
         | Resolves r \<Rightarrow> ([c], logout_reply r))"

definition logout :: "provider \<Rightarrow> request \<Rightarrow> run" where
  "logout supabase req = contain ''Logout error:'' (logout_try supabase req)"

subsection \<open>POST /api/verify-email\<close>

definition verify_email_reply :: "auth_result \<Rightarrow> exn + http_response option" where
  "verify_email_reply r =
     (case error r of
        Some err \<Rightarrow> Inr (Some (failure 400 (message err)))
      | None \<Rightarrow>
          (case data_user r of
             None \<Rightarrow> Inl (TypeError ''Cannot read properties of null (reading id)'')
           | Some u \<Rightarrow> Inr (Some (send 200
               [(''success'', JBool True),
                (''user'', user_json u),
                (''token'', session_token (data_session r)),
                (''message'', JStr ''Email verified successfully'')]))))"

definition verify_email_try :: "provider \<Rightarrow> request \<Rightarrow> attempt" where
  "verify_email_try supabase req =
     (case destructure (body req) ''tokenHash'' of
        Inl e \<Rightarrow> ([], Inl e)
      | Inr tokenHash \<Rightarrow>
     (case destructure (body req) ''type'' of
        Inl e \<Rightarrow> ([], Inl e)
      | Inr type \<Rightarrow>
          if \<not> truthy tokenHash \<or> \<not> truthy type
          then ([], Inr (Some (failure 400 ''Token hash and type are required'')))
          else (let c = VerifyOtp tokenHash type
               in (case supabase c of
                    Rejects e \<Rightarrow> ([c], Inl e)
                  | Pending \<Rightarrow> ([c], Inr None)
                  | Resolves r \<Rightarrow> ([c], verify_email_reply r)))))"

definition verify_email :: "provider \<Rightarrow> request \<Rightarrow> run" where
  "verify_email supabase req =
     contain ''Email verification error:'' (verify_email_try supabase req)"

subsection \<open>POST /api/resend-verification\<close>

definition resend_verification_reply :: "auth_result \<Rightarrow> exn + http_response option" where
  "resend_verification_reply r =
     (case error r of
        Some err \<Rightarrow> Inr (Some (failure 400 (message err)))
      | None \<Rightarrow> Inr (Some (send 200
          [(''success'', JBool True),
           (''message'', JStr ''Verification email sent successfully'')])))"

definition resend_verification_try :: "provider \<Rightarrow> request \<Rightarrow> attempt" where
  "resend_verification_try supabase req =
     (case destructure (body req) ''email'' of
        Inl e \<Rightarrow> ([], Inl e)
      | Inr email \<Rightarrow>
          if \<not> truthy email
          then ([], Inr (Some (failure 400 ''Email is required'')))
          else (let c = Resend ''signup'' email (redirectUrl req)
               in (case supabase c of
                    Rejects e \<Rightarrow> ([c], Inl e)
                  | Pending \<Rightarrow> ([c], Inr None)
                  | Resolves r \<Rightarrow> ([c], resend_verification_reply r))))"

definition resend_verification :: "provider \<Rightarrow> request \<Rightarrow> run" where
  "resend_verification supabase req =
     contain ''Resend verification error:'' (resend_verification_try supabase req)"

subsection \<open>GET / and the routes\<close>

definition health :: run where
  "health = \<lparr>response = Some (send 200 [(''message'', JStr ''My Universe API is running'')]),
             calls = [], logged = []\<rparr>"

datatype endpoint = Signup | Login | Logout | VerifyEmail | ResendVerification

datatype route = Health | Api endpoint

fun handler_try :: "endpoint \<Rightarrow> provider \<Rightarrow> request \<Rightarrow> attempt" where
  "handler_try Signup = signup_try"
| "handler_try Login = login_try"
| "handler_try Logout = logout_try"
| "handler_try VerifyEmail = verify_email_try"
| "handler_try ResendVerification = resend_verification_try"

fun handler :: "endpoint \<Rightarrow> provider \<Rightarrow> request \<Rightarrow> run" where
  "handler Signup = signup"
| "handler Login = login"
| "handler Logout = logout"
| "handler VerifyEmail = verify_email"
| "handler ResendVerification = resend_verification"

fun serve :: "route \<Rightarrow> provider \<Rightarrow> request \<Rightarrow> run" where
  "serve Health supabase req = health"
| "serve (Api ep) supabase req = handler ep supabase req"

text \<open>The first argument of the \<open>console.error\<close> in each handler's \<open>catch\<close>.\<close>

fun log_label :: "endpoint \<Rightarrow> string" where
  "log_label Signup = ''Signup error:''"
| "log_label Login = ''Login error:''"
| "log_label Logout = ''Logout error:''"
| "log_label VerifyEmail = ''Email verification error:''"
| "log_label ResendVerification = ''Resend verification error:''"

text \<open>A provider that answers every call the same way, for concrete runs.\<close>

definition always :: "provider_outcome \<Rightarrow> provider" where
  "always out c = out"

text \<open>The argument \<open>options.emailRedirectTo\<close> of a call, for the two operations that take it.\<close>

fun emailRedirectTo :: "provider_call \<Rightarrow> string option" where
  "emailRedirectTo (SignUp email password url) = Some url"
| "emailRedirectTo (Resend type email url) = Some url"
| "emailRedirectTo c = None"

subsection \<open>Concrete requests and provider answers\<close>

text \<open>
  The scenario of the specification: \<open>{"email": "a@b.com", "password": "secret123"}\<close>, a
  provider that requires confirmation, one that returns a confirmed user with a session,
  one that answers with neither an error nor a user, and one that refuses with a message;
  a request whose body the parser left undefined, and one with an empty email and no
  password or type.
\<close>

definition credentials :: request where
  "credentials =
     \<lparr>body = JObj [(''email'', JStr ''a@b.com''), (''password'', JStr ''secret123'')],
      headers_origin = None\<rparr>"

definition unconfirmed :: user where
  "unconfirmed = \<lparr>user_id = ''u1'', user_email = Some ''a@b.com'', email_confirmed_at = None\<rparr>"

definition created :: auth_result where
  "created = \<lparr>data_user = Some unconfirmed, data_session = None, error = None\<rparr>"

definition confirmed :: user where
  "confirmed = \<lparr>user_id = ''u2'', user_email = Some ''c@d.com'',
     email_confirmed_at = Some (Timestamp CHR ''2'' ''024-05-01T10:00:00Z'')\<rparr>"

definition created_confirmed :: auth_result where
  "created_confirmed =
     \<lparr>data_user = Some confirmed, data_session = Some \<lparr>access_token = ''jwt''\<rparr>, error = None\<rparr>"

definition empty_request :: request where
  "empty_request = \<lparr>body = JUndefined, headers_origin = None\<rparr>"

definition partial_request :: request where
  "partial_request =
     \<lparr>body = JObj [(''email'', JStr []), (''tokenHash'', JStr ''abc'')], headers_origin = None\<rparr>"

definition no_user :: auth_result where
  "no_user = \<lparr>data_user = None, data_session = None, error = None\<rparr>"

definition refused :: "string \<Rightarrow> auth_result" where
  "refused msg = \<lparr>data_user = None, data_session = None, error = Some \<lparr>message = msg\<rparr>\<rparr>"

section \<open>Facts about the building blocks\<close>

text \<open>\<open>str_includes\<close> is the substring test: the pattern sits between some prefix and some suffix.\<close>

lemma starts_with_iff: "starts_with s t \<longleftrightarrow> (\<exists>q. s = t @ q)"
  by (induction s t rule: starts_with.induct) auto

lemma str_includes_iff: "str_includes s t \<longleftrightarrow> (\<exists>p q. s = p @ t @ q)"
proof (induction s)
  case Nil
  then show ?case by simp
next
  case (Cons x xs)
  show ?case
  proof
    assume "str_includes (x # xs) t"
    then consider "starts_with (x # xs) t" | "str_includes xs t" by auto
    then show "\<exists>p q. x # xs = p @ t @ q"
    proof cases
      case 1
      then obtain q where "x # xs = t @ q" by (auto simp: starts_with_iff)
      then have "x # xs = [] @ t @ q" by simp
      then show ?thesis by blast
    next
      case 2
      with Cons.IH obtain p q where "xs = p @ t @ q" by blast
      then have "x # xs = (x # p) @ t @ q" by simp
      then show ?thesis by blast
    qed
  next
    assume "\<exists>p q. x # xs = p @ t @ q"
    then obtain p q where pq: "x # xs = p @ t @ q" by blast
    show "str_includes (x # xs) t"
    proof (cases p)
      case Nil
      with pq have "starts_with (x # xs) t" by (auto simp: starts_with_iff)
      then show ?thesis by simp
    next
      case (Cons y ys)
      with pq have "xs = ys @ t @ q" by simp
      with Cons.IH have "str_includes xs t" by blast
      then show ?thesis by simp
    qed
  qed
qed

text \<open>A timestamp is a non-empty string, so it is truthy exactly when it is there.\<close>

lemma truthy_confirmed_at: "truthy (confirmed_at u) \<longleftrightarrow> email_confirmed_at u \<noteq> None"
  by (cases "email_confirmed_at u") (auto simp: confirmed_at_def elim: timestamp_string.elims)

lemma destructure_present:
  "v \<noteq> JUndefined \<Longrightarrow> v \<noteq> JNull \<Longrightarrow> destructure v k = Inr (property v k)"
  by (cases v) simp_all


lemmas try_defs = signup_try_def login_try_def logout_try_def verify_email_try_def
  resend_verification_try_def
lemmas reply_defs = signup_reply_def login_reply_def logout_reply_def verify_email_reply_def
  resend_verification_reply_def
lemmas handler_defs = signup_def login_def logout_def verify_email_def resend_verification_def
lemmas send_defs = send_def failure_def internal_error_def please_verify_def
lemmas fixture_defs = credentials_def unconfirmed_def created_def confirmed_def
  created_confirmed_def empty_request_def partial_request_def no_user_def refused_def always_def

section \<open>What a run shows of its attempt\<close>

lemma calls_contain [simp]: "calls (contain label (cs, x)) = cs"
  by (cases x) simp_all

lemma response_contain:
  "response (contain label (cs, x)) = (case x of Inl e \<Rightarrow> Some internal_error | Inr r \<Rightarrow> r)"
  by (cases x) simp_all

lemma logged_contain:
  "logged (contain label (cs, x)) = (case x of Inl e \<Rightarrow> [(label, e)] | Inr r \<Rightarrow> [])"
  by (cases x) simp_all

lemma handler_contain:
  "handler ep supabase req = contain (log_label ep) (handler_try ep supabase req)"
  by (cases ep) (simp_all add: handler_defs)

text \<open>
  A run that made a call made it with the handler's own arguments, and its outcome is what
  the provider answered to that call.
\<close>

lemma signup_called:
  assumes "calls (signup supabase req) = [c]"
  shows "signup supabase req = contain ''Signup error:''
           ([c], case supabase c of Resolves r \<Rightarrow> signup_reply r | Rejects e \<Rightarrow> Inl e | Pending \<Rightarrow> Inr None)"
  using assms unfolding signup_def signup_try_def
  by (auto simp: Let_def split: sum.splits if_splits provider_outcome.splits)

lemma login_called:
  assumes "calls (login supabase req) = [c]"
  shows "login supabase req = contain ''Login error:''
           ([c], case supabase c of Resolves r \<Rightarrow> login_reply r | Rejects e \<Rightarrow> Inl e | Pending \<Rightarrow> Inr None)"
  using assms unfolding login_def login_try_def
  by (auto simp: Let_def split: sum.splits if_splits provider_outcome.splits)

lemma signup_calls:
  "calls (signup supabase req) = [] \<or>
   calls (signup supabase req) =
     [SignUp (property (body req) ''email'') (property (body req) ''password'') (redirectUrl req)]"
  unfolding signup_def signup_try_def
  by (cases "body req") (simp_all add: Let_def split: provider_outcome.splits)

lemma resend_verification_calls:
  "calls (resend_verification supabase req) = [] \<or>
   calls (resend_verification supabase req) =
     [Resend ''signup'' (property (body req) ''email'') (redirectUrl req)]"
  unfolding resend_verification_def resend_verification_try_def
  by (cases "body req") (simp_all add: Let_def split: provider_outcome.splits)

text \<open>The shape of every attempt: no call, or one call whose outcome decides the rest.\<close>

lemma signup_try_shape:
  "fst (signup_try supabase req) = [] \<and> snd (signup_try supabase req) \<noteq> Inr None \<or>
   (\<exists>c. fst (signup_try supabase req) = [c] \<and>
     (supabase c = Pending \<or> snd (signup_try supabase req) \<noteq> Inr None))"
  unfolding signup_try_def signup_reply_def
  by (auto simp: Let_def split: sum.splits provider_outcome.splits option.splits)

lemma login_try_shape:
  "fst (login_try supabase req) = [] \<and> snd (login_try supabase req) \<noteq> Inr None \<or>
   (\<exists>c. fst (login_try supabase req) = [c] \<and>
     (supabase c = Pending \<or> snd (login_try supabase req) \<noteq> Inr None))"
  unfolding login_try_def login_reply_def
  by (auto simp: Let_def split: sum.splits provider_outcome.splits option.splits)

lemma logout_try_shape:
  "fst (logout_try supabase req) = [] \<and> snd (logout_try supabase req) \<noteq> Inr None \<or>
   (\<exists>c. fst (logout_try supabase req) = [c] \<and>
     (supabase c = Pending \<or> snd (logout_try supabase req) \<noteq> Inr None))"
  unfolding logout_try_def logout_reply_def
  by (auto simp: Let_def split: sum.splits provider_outcome.splits option.splits)

lemma verify_email_try_shape:
  "fst (verify_email_try supabase req) = [] \<and> snd (verify_email_try supabase req) \<noteq> Inr None \<or>
   (\<exists>c. fst (verify_email_try supabase req) = [c] \<and>
     (supabase c = Pending \<or> snd (verify_email_try supabase req) \<noteq> Inr None))"
  unfolding verify_email_try_def verify_email_reply_def
  by (auto simp: Let_def split: sum.splits provider_outcome.splits option.splits)

lemma resend_verification_try_shape:
  "fst (resend_verification_try supabase req) = [] \<and>
     snd (resend_verification_try supabase req) \<noteq> Inr None \<or>
   (\<exists>c. fst (resend_verification_try supabase req) = [c] \<and>
     (supabase c = Pending \<or> snd (resend_verification_try supabase req) \<noteq> Inr None))"
  unfolding resend_verification_try_def resend_verification_reply_def
  by (auto simp: Let_def split: sum.splits provider_outcome.splits option.splits)

lemma handler_try_shape:
  "fst (handler_try ep supabase req) = [] \<and> snd (handler_try ep supabase req) \<noteq> Inr None \<or>
   (\<exists>c. fst (handler_try ep supabase req) = [c] \<and>
     (supabase c = Pending \<or> snd (handler_try ep supabase req) \<noteq> Inr None))"
  by (cases ep)
    (simp_all only: handler_try.simps signup_try_shape login_try_shape logout_try_shape
      verify_email_try_shape resend_verification_try_shape)

lemma handler_shape:
  "calls (handler ep supabase req) = [] \<and> response (handler ep supabase req) \<noteq> None \<or>
   (\<exists>c. calls (handler ep supabase req) = [c] \<and>
     (supabase c = Pending \<or> response (handler ep supabase req) \<noteq> None))"
proof -
  obtain cs x where t: "handler_try ep supabase req = (cs, x)"
    by (cases "handler_try ep supabase req")
  show ?thesis
    using handler_try_shape [of ep supabase req]
    by (cases x) (auto simp: handler_contain t)
qed

section \<open>Missing fields\<close>








section \<open>Login\<close>

text \<open>
  C2. A login whose provider call returns no error and a user without a confirmation
  timestamp is answered 401 with \<open>success: false\<close> and \<open>needsVerification: true\<close>; no
  error text of the provider is involved.
\<close>

theorem login_unconfirmed_401:
  assumes "calls (login supabase req) = [c]"
    and "supabase c = Resolves r"
    and "error r = None"
    and "data_user r = Some u"
    and "email_confirmed_at u = None"
  shows "response (login supabase req) =
     Some \<lparr>status = 401, json = JObj
       [(''success'', JBool False),
        (''needsVerification'', JBool True),
        (''message'', JStr ''Please verify your email before logging in'')]\<rparr>"
  using assms(2-5)
  by (simp add: login_called [OF assms(1)] login_reply_def truthy_confirmed_at send_defs)

theorem login_unconfirmed_401_witness:
  "response (login (always (Resolves created)) credentials) =
     Some \<lparr>status = 401, json = JObj
       [(''success'', JBool False),
        (''needsVerification'', JBool True),
        (''message'', JStr ''Please verify your email before logging in'')]\<rparr>"
  using login_unconfirmed_401
    [of "always (Resolves created)" credentials
        "SignInWithPassword (JStr ''a@b.com'') (JStr ''secret123'')" created unconfirmed]
  by (simp add: login_def login_try_def fixture_defs)

text \<open>
  C3, as the code has it. A login whose provider call returns an error is answered 401.
  The body carries \<open>needsVerification: true\<close> and the fixed message exactly when the
  provider's message contains \<open>Email not confirmed\<close>, compared case-sensitively with a
  capital E; otherwise it carries the provider's message and no \<open>needsVerification\<close>.
\<close>

theorem login_provider_error_401:
  assumes "calls (login supabase req) = [c]"
    and "supabase c = Resolves r"
    and "error r = Some err"
  shows "response (login supabase req) =
     Some (if str_includes (message err) ''Email not confirmed''
       then \<lparr>status = 401, json = JObj
              [(''success'', JBool False),
               (''needsVerification'', JBool True),
               (''message'', JStr ''Please verify your email before logging in'')]\<rparr>
       else \<lparr>status = 401, json = JObj
              [(''success'', JBool False),
               (''message'', JStr (message err))]\<rparr>)"
  using assms(2-3)
  by (simp add: login_called [OF assms(1)] login_reply_def send_defs)

theorem login_provider_error_401_witness:
  "response (login (always (Resolves (refused ''Invalid login credentials''))) credentials) =
     Some \<lparr>status = 401, json = JObj
       [(''success'', JBool False),
        (''message'', JStr ''Invalid login credentials'')]\<rparr>
   \<and> response (login (always (Resolves (refused ''Email not confirmed''))) credentials) =
     Some \<lparr>status = 401, json = JObj
       [(''success'', JBool False),
        (''needsVerification'', JBool True),
        (''message'', JStr ''Please verify your email before logging in'')]\<rparr>"
  using
    login_provider_error_401
      [of "always (Resolves (refused ''Invalid login credentials''))" credentials
          "SignInWithPassword (JStr ''a@b.com'') (JStr ''secret123'')"
          "refused ''Invalid login credentials''" "\<lparr>message = ''Invalid login credentials''\<rparr>"]
    login_provider_error_401
      [of "always (Resolves (refused ''Email not confirmed''))" credentials
          "SignInWithPassword (JStr ''a@b.com'') (JStr ''secret123'')"
          "refused ''Email not confirmed''" "\<lparr>message = ''Email not confirmed''\<rparr>"]
  by (simp add: login_def login_try_def fixture_defs)

text \<open>
  C3 as stated names the substring \<open>email not confirmed\<close>. A provider message with
  exactly that text contains it, and the response passes the message on without
  \<open>needsVerification\<close>.
\<close>

theorem lowercase_message_not_flagged:
  "str_includes ''email not confirmed'' ''email not confirmed''
   \<and> response (login (always (Resolves (refused ''email not confirmed''))) credentials) =
     Some \<lparr>status = 401, json = JObj
       [(''success'', JBool False),
        (''message'', JStr ''email not confirmed'')]\<rparr>"
  by (simp add: login_def login_try_def login_reply_def fixture_defs send_defs)

section \<open>Signup\<close>

text \<open>A success envelope of signup is never sent without a user from the provider.\<close>

lemma signup_success_has_user:
  assumes "response (signup supabase req) = Some resp"
    and "property (json resp) ''success'' = JBool True"
  shows "\<exists>c r u. calls (signup supabase req) = [c] \<and> supabase c = Resolves r
           \<and> error r = None \<and> data_user r = Some u"
  using assms unfolding signup_def signup_try_def signup_reply_def
  by (auto simp: Let_def response_contain send_defs
      split: sum.splits if_splits provider_outcome.splits option.splits)

text \<open>
  C4. When the provider call of a signup returns no error and a user, so that the success
  envelope is built without a throw, that envelope is sent with status 200, its
  \<open>needsVerification\<close> is the negation of the presence of the user's confirmation
  timestamp, and its \<open>user.emailConfirmed\<close> is that presence.
\<close>

theorem signup_flag_negates_confirmation:
  assumes "calls (signup supabase req) = [c]"
    and "supabase c = Resolves r"
    and "error r = None"
    and "data_user r = Some u"
  shows "response (signup supabase req) =
     Some \<lparr>status = 200, json = JObj
       [(''success'', JBool True),
        (''needsVerification'', JBool (email_confirmed_at u = None)),
        (''user'', JObj
           [(''id'', JStr (user_id u)),
            (''email'', opt_str (user_email u)),
            (''emailConfirmed'', JBool (email_confirmed_at u \<noteq> None))]),
        (''token'', session_token (data_session r)),
        (''message'', JStr (if email_confirmed_at u = None
            then ''Please check your email to verify your account''
            else ''Account created successfully''))]\<rparr>"
  using assms(2-4)
  by (simp add: signup_called [OF assms(1)] signup_reply_def send_defs user_json_def
      truthy_confirmed_at Let_def)

theorem signup_flag_negates_confirmation_witness:
  "response (signup (always (Resolves created)) credentials) =
     Some \<lparr>status = 200, json = JObj
       [(''success'', JBool True),
        (''needsVerification'', JBool True),
        (''user'', JObj
           [(''id'', JStr ''u1''),
            (''email'', JStr ''a@b.com''),
            (''emailConfirmed'', JBool False)]),
        (''token'', JUndefined),
        (''message'', JStr ''Please check your email to verify your account'')]\<rparr>
   \<and> response (signup (always (Resolves created_confirmed)) credentials) =
     Some \<lparr>status = 200, json = JObj
       [(''success'', JBool True),
        (''needsVerification'', JBool False),
        (''user'', JObj
           [(''id'', JStr ''u2''),
            (''email'', JStr ''c@d.com''),
            (''emailConfirmed'', JBool True)]),
        (''token'', JStr ''jwt''),
        (''message'', JStr ''Account created successfully'')]\<rparr>"
  using
    signup_flag_negates_confirmation
      [of "always (Resolves created)" credentials
          "SignUp (JStr ''a@b.com'') (JStr ''secret123'') ''http://localhost:4200/verify-email''"
          created unconfirmed]
    signup_flag_negates_confirmation
      [of "always (Resolves created_confirmed)" credentials
          "SignUp (JStr ''a@b.com'') (JStr ''secret123'') ''http://localhost:4200/verify-email''"
          created_confirmed confirmed]
  by (simp add: signup_def signup_try_def fixture_defs redirectUrl_def)

section \<open>Thrown errors\<close>

text \<open>
  C5. On each of the five endpoints, an error thrown inside the \<open>try\<close> block (by the
  destructuring, by the awaited provider call or while the response is built) is logged
  as it is under the handler's label, and the response is 500 with exactly
  \<open>{success: false, message: "Internal server error"}\<close>, which holds nothing of the error.
\<close>

theorem exception_contained_500:
  assumes "snd (handler_try ep supabase req) = Inl e"
  shows "response (handler ep supabase req) =
           Some \<lparr>status = 500, json = JObj
             [(''success'', JBool False), (''message'', JStr ''Internal server error'')]\<rparr>
       \<and> logged (handler ep supabase req) = [(log_label ep, e)]"
proof -
  obtain cs where "handler_try ep supabase req = (cs, Inl e)"
    using assms by (cases "handler_try ep supabase req") simp
  then show ?thesis
    by (simp add: handler_contain send_defs)
qed

theorem exception_contained_500_witness:
  "response (handler Logout (always (Rejects (Rejection ''fetch failed''))) credentials) =
           Some \<lparr>status = 500, json = JObj
             [(''success'', JBool False), (''message'', JStr ''Internal server error'')]\<rparr>
   \<and> logged (handler Logout (always (Rejects (Rejection ''fetch failed''))) credentials) =
           [(''Logout error:'', Rejection ''fetch failed'')]"
  using exception_contained_500
    [of Logout "always (Rejects (Rejection ''fetch failed''))" credentials
        "Rejection ''fetch failed''"]
  by (simp add: logout_try_def always_def)

section \<open>The redirect address\<close>

lemma redirectUrl_cases:
  "redirectUrl req =
     (case headers_origin req of
        None \<Rightarrow> ''http://localhost:4200/verify-email''
      | Some origin \<Rightarrow>
          if origin = [] then ''http://localhost:4200/verify-email''
          else origin @ ''/verify-email'')"
  by (simp add: redirectUrl_def split: option.splits)

text \<open>
  C6, as the code has it. The \<open>emailRedirectTo\<close> passed by signup and by
  resend-verification is the origin header followed by \<open>/verify-email\<close> when that header is
  present and not empty, and \<open>http://localhost:4200/verify-email\<close> when it is absent or
  empty.
\<close>

theorem redirect_from_nonempty_origin:
  assumes "c \<in> set (calls (signup supabase req)) \<union> set (calls (resend_verification supabase req))"
  shows "emailRedirectTo c = Some
     (case headers_origin req of
        None \<Rightarrow> ''http://localhost:4200/verify-email''
      | Some origin \<Rightarrow>
          if origin = [] then ''http://localhost:4200/verify-email''
          else origin @ ''/verify-email'')"
  using assms signup_calls [of supabase req] resend_verification_calls [of supabase req]
  by (auto simp: redirectUrl_cases)

theorem redirect_from_nonempty_origin_witness:
  "emailRedirectTo (SignUp (JStr ''a@b.com'') (JStr ''secret123'') ''https://app.example/verify-email'')
     = Some ''https://app.example/verify-email''
   \<and> calls (signup (always Pending) (credentials\<lparr>headers_origin := Some ''https://app.example''\<rparr>))
     = [SignUp (JStr ''a@b.com'') (JStr ''secret123'') ''https://app.example/verify-email'']"
  using redirect_from_nonempty_origin
    [of "SignUp (JStr ''a@b.com'') (JStr ''secret123'') ''https://app.example/verify-email''"
        "always Pending" "credentials\<lparr>headers_origin := Some ''https://app.example''\<rparr>"]
  by (simp add: signup_def signup_try_def fixture_defs redirectUrl_def)

text \<open>
  C6 as stated takes the origin whenever the header is present. A request whose origin
  header is present with an empty value gets the local default, not \<open>/verify-email\<close> alone.
\<close>

theorem empty_origin_falls_back:
  "calls (signup (always Pending) (credentials\<lparr>headers_origin := Some ''''\<rparr>))
     = [SignUp (JStr ''a@b.com'') (JStr ''secret123'') ''http://localhost:4200/verify-email'']
   \<and> calls (resend_verification (always Pending) (credentials\<lparr>headers_origin := Some ''''\<rparr>))
     = [Resend ''signup'' (JStr ''a@b.com'') ''http://localhost:4200/verify-email'']
   \<and> ''http://localhost:4200/verify-email'' \<noteq> '''' @ ''/verify-email''"
  by (simp add: signup_def signup_try_def resend_verification_def resend_verification_try_def
      fixture_defs redirectUrl_def)

section \<open>One call, no retry\<close>

text \<open>
  C7. A request to any route makes at most one call on the provider's client, and once
  that call has settled, with a result, an error or a rejection, the response is sent
  without another call.
\<close>

theorem at_most_one_provider_call:
  "length (calls (serve rt supabase req)) \<le> 1
   \<and> (\<forall>c. calls (serve rt supabase req) = [c] \<and> supabase c \<noteq> Pending
          \<longrightarrow> response (serve rt supabase req) \<noteq> None)"
proof (cases rt)
  case Health
  then show ?thesis by (simp add: health_def)
next
  case (Api ep)
  then show ?thesis using handler_shape [of ep supabase req] by auto
qed

theorem at_most_one_provider_call_witness:
  "length (calls (serve (Api Login) (always (Rejects (Rejection ''fetch failed''))) credentials)) \<le> 1
   \<and> calls (serve (Api Login) (always (Rejects (Rejection ''fetch failed''))) credentials)
       = [SignInWithPassword (JStr ''a@b.com'') (JStr ''secret123'')]
   \<and> always (Rejects (Rejection ''fetch failed''))
        (SignInWithPassword (JStr ''a@b.com'') (JStr ''secret123'')) \<noteq> Pending
   \<and> response (serve (Api Login) (always (Rejects (Rejection ''fetch failed''))) credentials) \<noteq> None"
  using at_most_one_provider_call
    [of "Api Login" "always (Rejects (Rejection ''fetch failed''))" credentials]
  by (simp add: login_def login_try_def always_def credentials_def)

section \<open>The envelope\<close>

lemma handler_try_envelope:
  assumes "snd (handler_try ep supabase req) = Inr (Some resp)"
  shows "\<exists>b. property (json resp) ''success'' = JBool b
           \<and> (b \<longleftrightarrow> status resp = 200)
           \<and> (status resp \<noteq> 200 \<longrightarrow>
                status resp \<in> {400, 401, 500}
                \<and> property (json resp) ''success'' = JBool False
                \<and> (\<exists>m. property (json resp) ''message'' = JStr m))"
  using assms
  by (cases ep)
    (auto simp: try_defs reply_defs send_defs Let_def
      split: sum.splits provider_outcome.splits option.splits if_splits)

text \<open>
  C8. Every response of the five endpoints has a boolean \<open>success\<close> that is true exactly
  when the status is 200; a response with another status has status 400, 401 or 500,
  \<open>success: false\<close> and a string \<open>message\<close>.
\<close>

theorem success_iff_status_200:
  assumes "response (handler ep supabase req) = Some resp"
  shows "\<exists>b. property (json resp) ''success'' = JBool b
           \<and> (b \<longleftrightarrow> status resp = 200)
           \<and> (status resp \<noteq> 200 \<longrightarrow>
                status resp \<in> {400, 401, 500}
                \<and> property (json resp) ''success'' = JBool False
                \<and> (\<exists>m. property (json resp) ''message'' = JStr m))"
proof -
  obtain cs x where t: "handler_try ep supabase req = (cs, x)"
    by (cases "handler_try ep supabase req")
  show ?thesis
  proof (cases x)
    case (Inl e)
    with assms t have "resp = internal_error"
      by (simp add: handler_contain)
    then show ?thesis by (auto simp: send_defs)
  next
    case (Inr r)
    with assms t have "snd (handler_try ep supabase req) = Inr (Some resp)"
      by (simp add: handler_contain)
    then show ?thesis by (rule handler_try_envelope)
  qed
qed

theorem success_iff_status_200_witness:
  "response (handler Login (always (Resolves (refused ''Invalid login credentials''))) credentials) =
     Some (failure 401 ''Invalid login credentials'')
   \<and> property (json (failure 401 ''Invalid login credentials'')) ''success'' = JBool False
   \<and> status (failure 401 ''Invalid login credentials'') \<noteq> 200
   \<and> status (failure 401 ''Invalid login credentials'') \<in> {400, 401, 500}
   \<and> property (json (failure 401 ''Invalid login credentials'')) ''message'' =
       JStr ''Invalid login credentials''"
  using success_iff_status_200
    [of Login "always (Resolves (refused ''Invalid login credentials''))" credentials
        "failure 401 ''Invalid login credentials''"]
  by (simp add: login_def login_try_def login_reply_def fixture_defs send_defs)

section \<open>Signup without a user\<close>

text \<open>
  C9. A signup whose provider call returns neither an error nor a user sends no success
  envelope: reading \<open>data.user.id\<close> throws, the error is caught and logged, and the
  response is 500 with \<open>{success: false, message: "Internal server error"}\<close>.
\<close>

theorem signup_null_user_500:
  assumes "calls (signup supabase req) = [c]"
    and "supabase c = Resolves r"
    and "error r = None"
    and "data_user r = None"
  shows "response (signup supabase req) =
           Some \<lparr>status = 500, json = JObj
             [(''success'', JBool False), (''message'', JStr ''Internal server error'')]\<rparr>
       \<and> logged (signup supabase req) =
           [(''Signup error:'', TypeError ''Cannot read properties of null (reading id)'')]"
  using assms(2-4)
  by (simp add: signup_called [OF assms(1)] signup_reply_def send_defs)

theorem signup_null_user_500_witness:
  "response (signup (always (Resolves no_user)) credentials) =
     Some \<lparr>status = 500, json = JObj
       [(''success'', JBool False), (''message'', JStr ''Internal server error'')]\<rparr>
   \<and> logged (signup (always (Resolves no_user)) credentials) =
     [(''Signup error:'', TypeError ''Cannot read properties of null (reading id)'')]"
  using signup_null_user_500
    [of "always (Resolves no_user)" credentials
        "SignUp (JStr ''a@b.com'') (JStr ''secret123'') ''http://localhost:4200/verify-email''"
        no_user]
  by (simp add: signup_def signup_try_def fixture_defs redirectUrl_def)

section \<open>Resending the verification mail\<close>

text \<open>
  C10. The call resend-verification makes has the type \<open>signup\<close> whatever the body
  holds; the email is the body's and the redirect address follows the origin header.
\<close>

theorem resend_type_is_signup:
  assumes "c \<in> set (calls (resend_verification supabase req))"
  shows "c = Resend ''signup'' (property (body req) ''email'') (redirectUrl req)"
  using assms resend_verification_calls [of supabase req] by auto

theorem resend_type_is_signup_witness:
  "calls (resend_verification (always Pending)
      \<lparr>body = JObj [(''email'', JStr ''a@b.com''), (''type'', JStr ''recovery'')],
       headers_origin = None\<rparr>)
     = [Resend ''signup'' (JStr ''a@b.com'') ''http://localhost:4200/verify-email'']
   \<and> Resend ''signup'' (JStr ''a@b.com'') ''http://localhost:4200/verify-email''
     = Resend ''signup''
        (property (body \<lparr>body = JObj [(''email'', JStr ''a@b.com''), (''type'', JStr ''recovery'')],
                         headers_origin = None\<rparr>) ''email'')
        (redirectUrl \<lparr>body = JObj [(''email'', JStr ''a@b.com''), (''type'', JStr ''recovery'')],
                      headers_origin = None\<rparr>)"
  using resend_type_is_signup
    [of "Resend ''signup'' (JStr ''a@b.com'') ''http://localhost:4200/verify-email''"
        "always Pending"
        "\<lparr>body = JObj [(''email'', JStr ''a@b.com''), (''type'', JStr ''recovery'')],
          headers_origin = None\<rparr>"]
  by (simp add: resend_verification_def resend_verification_try_def always_def redirectUrl_def)

end
